theory Spec2Isabelle
  imports Main "HOL-Library.Sublist"
begin

section \<open>Python strings\<close>

text \<open>
  A Python \<open>str\<close> is modelled as a \<open>string\<close> whose characters are the code points
  below 256 (ASCII and Latin-1). \<open>lower_char\<close> is \<open>str.lower\<close> on one such code point:
  \<open>A\<close>..\<open>Z\<close> and the Latin-1 capitals \<open>0xC0\<close>..\<open>0xDE\<close> (without the multiplication
  sign \<open>0xD7\<close>) move up by 32, every other code point stays.
\<close>

definition lower_char :: "char \<Rightarrow> char" where
  "lower_char c =
     (let n = (of_char c :: nat)
      in if (65 \<le> n \<and> n \<le> 90) \<or> (192 \<le> n \<and> n \<le> 222 \<and> n \<noteq> 215)
         then char_of (n + 32) else c)"

definition lower :: "string \<Rightarrow> string" where
  "lower s = map lower_char s"

text \<open>\<open>str.isspace\<close> on one code point below 256.\<close>

definition isspace :: "char \<Rightarrow> bool" where
  "isspace c =
     (let n = (of_char c :: nat)
      in (9 \<le> n \<and> n \<le> 13) \<or> (28 \<le> n \<and> n \<le> 32) \<or> n = 133 \<or> n = 160)"

text \<open>Python's \<open>w in s\<close> on strings: \<open>w\<close> occurs in \<open>s\<close> as a contiguous run.\<close>

fun str_in :: "string \<Rightarrow> string \<Rightarrow> bool" where
  "str_in w [] = (w = [])"
| "str_in w (c # cs) = (prefix w (c # cs) \<or> str_in w cs)"

text \<open>\<open>str(n)\<close> for a Python \<open>int\<close>, as an f-string renders it.\<close>

fun str_nat :: "nat \<Rightarrow> string" where
  "str_nat n =
     (if n < 10 then [char_of (48 + n)]
      else str_nat (n div 10) @ [char_of (48 + n mod 10)])"

declare str_nat.simps [simp del]

definition str_int :: "int \<Rightarrow> string" where
  "str_int i = (if i < 0 then ''-'' @ str_nat (nat (- i)) else str_nat (nat i))"

section \<open>Intent detection\<close>

definition detect_intent :: "string \<Rightarrow> string" where
  "detect_intent prompt =
     (let prompt_lower = lower prompt
      in if list_ex (\<lambda>word. str_in word prompt_lower)
              [''task'', ''todo'', ''plan'', ''schedule'', ''organize''] then ''tasks''
         else if list_ex (\<lambda>word. str_in word prompt_lower)
              [''recipe'', ''cook'', ''ingredient'', ''dish'', ''meal''] then ''recipe''
         else if list_ex (\<lambda>word. str_in word prompt_lower)
              [''weather'', ''forecast'', ''temperature'', ''rain'', ''sunny''] then ''weather''
         else if list_ex (\<lambda>word. str_in word prompt_lower)
              [''review'', ''product'', ''rating'', ''recommend'', ''opinion''] then ''review''
         else ''general'')"

text \<open>
  The classifier as the specification words it, for comparison with \<open>detect_intent\<close>:
  keyword groups in priority order, the first group with a keyword occurring in the
  text wins, \<open>general\<close> when none does.
\<close>

definition keyword_groups :: "(string \<times> string set) list" where
  "keyword_groups =
     [(''tasks'', {''task'', ''todo'', ''plan'', ''schedule'', ''organize''}),
      (''recipe'', {''recipe'', ''cook'', ''ingredient'', ''dish'', ''meal''}),
      (''weather'', {''weather'', ''forecast'', ''temperature'', ''rain'', ''sunny''}),
      (''review'', {''review'', ''product'', ''rating'', ''recommend'', ''opinion''})]"

fun first_match :: "(string \<times> string set) list \<Rightarrow> string \<Rightarrow> string" where
  "first_match [] text = ''general''"
| "first_match ((label, keywords) # groups) text =
     (if \<exists>k \<in> keywords. sublist k text then label else first_match groups text)"

section \<open>JSON values\<close>

datatype json =
    JNull
  | JBool bool
  | JInt int
  | JStr string
  | JList "json list"
  | JDict "(string \<times> json) list"

text \<open>A Python \<open>dict\<close> with string keys, in insertion order (the order \<open>json.dumps\<close> writes).\<close>

type_synonym dict = "(string \<times> json) list"

section \<open>Structured output models\<close>

datatype TaskPriority = LOW | MEDIUM | HIGH | URGENT

fun TaskPriority_value :: "TaskPriority \<Rightarrow> string" where
  "TaskPriority_value LOW = ''low''"
| "TaskPriority_value MEDIUM = ''medium''"
| "TaskPriority_value HIGH = ''high''"
| "TaskPriority_value URGENT = ''urgent''"

record Task =
  title :: string
  description :: string
  priority :: TaskPriority
  estimated_time :: string
  category :: string

record TaskList =
  tasks :: "Task list"
  total_tasks :: int
  summary :: string

record RecipeIngredient =
  name :: string
  amount :: string
  ingredient_notes :: "string option"

datatype Difficulty = Easy | Medium | Hard

fun Difficulty_value :: "Difficulty \<Rightarrow> string" where
  "Difficulty_value Easy = ''easy''"
| "Difficulty_value Medium = ''medium''"
| "Difficulty_value Hard = ''hard''"

record Recipe =
  name :: string
  description :: string
  prep_time :: string
  cook_time :: string
  servings :: int
  difficulty :: Difficulty
  ingredients :: "RecipeIngredient list"
  instructions :: "string list"

datatype WeatherCondition = SUNNY | CLOUDY | RAINY | SNOWY | STORMY | FOGGY

fun WeatherCondition_value :: "WeatherCondition \<Rightarrow> string" where
  "WeatherCondition_value SUNNY = ''sunny''"
| "WeatherCondition_value CLOUDY = ''cloudy''"
| "WeatherCondition_value RAINY = ''rainy''"
| "WeatherCondition_value SNOWY = ''snowy''"
| "WeatherCondition_value STORMY = ''stormy''"
| "WeatherCondition_value FOGGY = ''foggy''"

record WeatherForecast =
  location :: string
  current_condition :: WeatherCondition
  temperature :: string
  humidity :: string
  wind_speed :: string
  forecast_summary :: string
  recommendations :: "string list"

record ProductReview =
  product_name :: string
  rating :: int
  pros :: "string list"
  cons :: "string list"
  summary :: string
  recommendation :: bool

text \<open>
  \<open>model_dump()\<close> of each model: a dict with one entry per declared field, in
  declaration order. Enum members are shown by their string value, as \<open>json.dumps\<close>
  writes them.
\<close>

definition Task_model_dump :: "Task \<Rightarrow> dict" where
  "Task_model_dump t =
     [(''title'', JStr (title t)),
      (''description'', JStr (Task.description t)),
      (''priority'', JStr (TaskPriority_value (priority t))),
      (''estimated_time'', JStr (estimated_time t)),
      (''category'', JStr (category t))]"

definition TaskList_model_dump :: "TaskList \<Rightarrow> dict" where
  "TaskList_model_dump l =
     [(''tasks'', JList (map (\<lambda>t. JDict (Task_model_dump t)) (tasks l))),
      (''total_tasks'', JInt (total_tasks l)),
      (''summary'', JStr (TaskList.summary l))]"

definition RecipeIngredient_model_dump :: "RecipeIngredient \<Rightarrow> dict" where
  "RecipeIngredient_model_dump i =
     [(''name'', JStr (RecipeIngredient.name i)),
      (''amount'', JStr (amount i)),
      (''notes'', (case ingredient_notes i of None \<Rightarrow> JNull | Some s \<Rightarrow> JStr s))]"

definition Recipe_model_dump :: "Recipe \<Rightarrow> dict" where
  "Recipe_model_dump r =
     [(''name'', JStr (Recipe.name r)),
      (''description'', JStr (Recipe.description r)),
      (''prep_time'', JStr (prep_time r)),
      (''cook_time'', JStr (cook_time r)),
      (''servings'', JInt (servings r)),
      (''difficulty'', JStr (Difficulty_value (difficulty r))),
      (''ingredients'', JList (map (\<lambda>i. JDict (RecipeIngredient_model_dump i)) (ingredients r))),
      (''instructions'', JList (map JStr (instructions r)))]"

definition WeatherForecast_model_dump :: "WeatherForecast \<Rightarrow> dict" where
  "WeatherForecast_model_dump f =
     [(''location'', JStr (location f)),
      (''current_condition'', JStr (WeatherCondition_value (current_condition f))),
      (''temperature'', JStr (temperature f)),
      (''humidity'', JStr (humidity f)),
      (''wind_speed'', JStr (wind_speed f)),
      (''forecast_summary'', JStr (forecast_summary f)),
      (''recommendations'', JList (map JStr (recommendations f)))]"

definition ProductReview_model_dump :: "ProductReview \<Rightarrow> dict" where
  "ProductReview_model_dump p =
     [(''product_name'', JStr (product_name p)),
      (''rating'', JInt (rating p)),
      (''pros'', JList (map JStr (pros p))),
      (''cons'', JList (map JStr (cons p))),
      (''summary'', JStr (ProductReview.summary p)),
      (''recommendation'', JBool (recommendation p))]"

section \<open>Conversation messages\<close>

text \<open>
  The message types of the \<open>pydantic_ai\<close> library, as far as the application looks at
  them: a message is a request or a response and carries a list of parts. A user
  prompt's content is a string or a sequence of multi-modal items; timestamps are kept
  in the form \<open>isoformat()\<close> prints.
\<close>

datatype UserContent = StrContent string | SequenceContent

datatype ModelRequestPart =
    SystemPromptPart string
  | UserPromptPart UserContent string
  | ToolReturnPart string
  | RetryPromptPart string

datatype ModelResponsePart =
    TextPart string
  | ToolCallPart string

datatype ModelMessage =
    ModelRequest "ModelRequestPart list"
  | ModelResponse "ModelResponsePart list" string

text \<open>
  The exceptions a request can end with. \<open>DatabaseError\<close> is an error of the SQLite
  connection and \<open>ValidationError\<close> a stored record that \<open>validate_json\<close> rejects, each
  with the text \<open>str(e)\<close> gives; \<open>UnexpectedModelBehavior\<close> carries the message it
  reports.
\<close>

datatype error =
    DatabaseError string
  | ValidationError string
  | UnexpectedModelBehavior ModelMessage
  | AssertionError
  | IndexError

text \<open>
  \<open>ChatMessage\<close>, the format of messages sent to the browser, is a dict with the keys
  \<open>role\<close>, \<open>timestamp\<close>, \<open>content\<close>, \<open>message_type\<close> and \<open>structured_data\<close>.
\<close>

definition ChatMessage_keys :: "string list" where
  "ChatMessage_keys = [''role'', ''timestamp'', ''content'', ''message_type'', ''structured_data'']"

fun to_chat_message :: "ModelMessage \<Rightarrow> error + dict" where
  "to_chat_message (ModelRequest []) = Inl IndexError"
| "to_chat_message (ModelRequest (UserPromptPart (StrContent content) timestamp # parts)) =
     Inr [(''role'', JStr ''user''),
          (''timestamp'', JStr timestamp),
          (''content'', JStr content),
          (''message_type'', JStr ''text''),
          (''structured_data'', JNull)]"
| "to_chat_message (ModelRequest (UserPromptPart SequenceContent timestamp # parts)) =
     Inl AssertionError"
| "to_chat_message (ModelRequest (first_part # parts)) =
     Inl (UnexpectedModelBehavior (ModelRequest (first_part # parts)))"
| "to_chat_message (ModelResponse [] timestamp) = Inl IndexError"
| "to_chat_message (ModelResponse (TextPart content # parts) timestamp) =
     Inr [(''role'', JStr ''model''),
          (''timestamp'', JStr timestamp),
          (''content'', JStr content),
          (''message_type'', JStr ''text''),
          (''structured_data'', JNull)]"
| "to_chat_message (ModelResponse (first_part # parts) timestamp) =
     Inl (UnexpectedModelBehavior (ModelResponse (first_part # parts) timestamp))"

section \<open>The world outside the application\<close>

text \<open>
  What an agent run returns: the validated \<open>data\<close> and the serialized new messages of
  the run.
\<close>

record 'a AgentRunResult =
  data :: 'a
  new_messages_json :: string

text \<open>
  Everything the request handlers receive from outside the source file:
  \<^item> \<open>now k\<close> is the text of \<open>datetime.now(tz=timezone.utc).isoformat()\<close> at the
    \<open>k\<close>-th reading of the clock within one request;
  \<^item> the five agents map the prompt and the message history to a result, or to
    \<open>Inl msg\<close> when the run raises an \<open>Exception\<close> \<open>e\<close> with \<open>str(e) = msg\<close>;
  \<^item> \<open>validate_json\<close> is \<open>ModelMessagesTypeAdapter.validate_json\<close>, with \<open>Inl msg\<close>
    for a record it rejects;
  \<^item> \<open>select_error\<close> and \<open>insert_error\<close> say whether the SQLite connection raises on
    the \<open>SELECT\<close> and on the \<open>INSERT\<close> of this request, and with which text;
  \<^item> \<open>pick_rowid\<close> is SQLite's choice of an unused row id once the largest one is
    taken.
\<close>

record world =
  now :: "nat \<Rightarrow> string"
  task_agent :: "string \<Rightarrow> ModelMessage list \<Rightarrow> string + TaskList AgentRunResult"
  recipe_agent :: "string \<Rightarrow> ModelMessage list \<Rightarrow> string + Recipe AgentRunResult"
  weather_agent :: "string \<Rightarrow> ModelMessage list \<Rightarrow> string + WeatherForecast AgentRunResult"
  review_agent :: "string \<Rightarrow> ModelMessage list \<Rightarrow> string + ProductReview AgentRunResult"
  general_agent :: "string \<Rightarrow> ModelMessage list \<Rightarrow> string + string AgentRunResult"
  validate_json :: "string \<Rightarrow> string + ModelMessage list"
  select_error :: "string option"
  insert_error :: "string option"
  pick_rowid :: "int list \<Rightarrow> int"

section \<open>Database\<close>

text \<open>
  The table \<open>messages (id INTEGER PRIMARY KEY, message_list TEXT)\<close>: a list of rows
  \<open>(id, message_list)\<close>.
\<close>

type_synonym Database = "(int \<times> string) list"

text \<open>
  The row id SQLite gives an \<open>INSERT\<close> that names no id: 1 in an empty table, else one
  more than the largest id in use, and a picked unused id once the largest is
  \<open>2^63 - 1\<close>.
\<close>

definition next_rowid :: "(int list \<Rightarrow> int) \<Rightarrow> Database \<Rightarrow> int" where
  "next_rowid pick db =
     (if db = [] then 1
      else let largest = Max (set (map fst db))
           in if largest < 9223372036854775807 then largest + 1 else pick (map fst db))"

text \<open>\<open>Inl msg\<close>: the \<open>INSERT\<close> raises an error \<open>e\<close> with \<open>str(e) = msg\<close>.\<close>

definition add_messages :: "world \<Rightarrow> Database \<Rightarrow> string \<Rightarrow> string + Database" where
  "add_messages w db messages =
     (case insert_error w of
        Some msg \<Rightarrow> Inl msg
      | None \<Rightarrow> Inr (db @ [(next_rowid (pick_rowid w) db, messages)]))"

text \<open>
  The loop of \<open>get_messages\<close>: \<open>messages.extend(validate_json(row[0]))\<close> row by row; the
  first row that does not validate raises.
\<close>

fun extend_rows :: "(string \<Rightarrow> string + ModelMessage list) \<Rightarrow> string list
    \<Rightarrow> ModelMessage list \<Rightarrow> error + ModelMessage list" where
  "extend_rows validate [] messages = Inr messages"
| "extend_rows validate (row # rows) messages =
     (case validate row of
        Inl msg \<Rightarrow> Inl (ValidationError msg)
      | Inr ms \<Rightarrow> extend_rows validate rows (messages @ ms))"

definition get_messages :: "world \<Rightarrow> Database \<Rightarrow> error + ModelMessage list" where
  "get_messages w db =
     (case select_error w of
        Some msg \<Rightarrow> Inl (DatabaseError msg)
      | None \<Rightarrow> extend_rows (validate_json w) (map snd (sort_key fst db)) [])"

section \<open>GET /chat/\<close>

text \<open>
  The generator expression of \<open>get_chat\<close>: the messages are rendered in order, and the
  first one \<open>to_chat_message\<close> rejects raises.
\<close>

fun to_chat_messages :: "ModelMessage list \<Rightarrow> error + dict list" where
  "to_chat_messages [] = Inr []"
| "to_chat_messages (m # msgs) =
     (case to_chat_message m of
        Inl e \<Rightarrow> Inl e
      | Inr d \<Rightarrow> (case to_chat_messages msgs of Inl e \<Rightarrow> Inl e | Inr ds \<Rightarrow> Inr (d # ds)))"

text \<open>
  The response body is kept as the list of its lines, each the dict that \<open>json.dumps\<close>
  writes on that line; \<open>Inl\<close> is the request failing with no response body.
\<close>

definition get_chat :: "world \<Rightarrow> Database \<Rightarrow> error + dict list" where
  "get_chat w database =
     (case get_messages w database of
        Inl e \<Rightarrow> Inl e
      | Inr msgs \<Rightarrow> to_chat_messages msgs)"

text \<open>
  The messages \<open>to_chat_message\<close> renders: a request whose first part is a user prompt
  with string content, and a response whose first part is text.
\<close>

fun is_chat_turn :: "ModelMessage \<Rightarrow> bool" where
  "is_chat_turn (ModelRequest (UserPromptPart (StrContent content) timestamp # parts)) = True"
| "is_chat_turn (ModelResponse (TextPart content # parts) timestamp) = True"
| "is_chat_turn m = False"

section \<open>POST /chat/\<close>

text \<open>\<open>x if structured_data else y\<close>: \<open>None\<close> and the empty dict are false.\<close>

fun truthy :: "dict option \<Rightarrow> bool" where
  "truthy None = False"
| "truthy (Some d) = (d \<noteq> [])"

fun json_of_optional_dict :: "dict option \<Rightarrow> json" where
  "json_of_optional_dict None = JNull"
| "json_of_optional_dict (Some d) = JDict d"

text \<open>
  The \<open>if\<close>/\<open>elif\<close> chain inside the \<open>try\<close> of \<open>stream_messages\<close>: the agent of the
  intent runs on its instruction template and the history, and gives
  \<open>(structured_data, content, result.new_messages_json())\<close>, or \<open>Inl msg\<close> when the run
  raises.
\<close>

definition dispatch :: "world \<Rightarrow> string \<Rightarrow> string \<Rightarrow> ModelMessage list
    \<Rightarrow> string + (dict option \<times> string \<times> string)" where
  "dispatch w intent prompt messages =
     (if intent = ''tasks'' then
        (case task_agent w (''Create a task list based on this request: '' @ prompt) messages of
           Inl msg \<Rightarrow> Inl msg
         | Inr result \<Rightarrow>
             Inr (Some (TaskList_model_dump (data result)),
                  ''I've created a structured task list for you with ''
                    @ str_int (total_tasks (data result)) @ '' tasks.'',
                  new_messages_json result))
      else if intent = ''recipe'' then
        (case recipe_agent w (''Provide a recipe based on this request: '' @ prompt) messages of
           Inl msg \<Rightarrow> Inl msg
         | Inr result \<Rightarrow>
             Inr (Some (Recipe_model_dump (data result)),
                  ''Here's a '' @ Difficulty_value (difficulty (data result))
                    @ '' recipe for '' @ Recipe.name (data result)
                    @ '' (serves '' @ str_int (servings (data result)) @ '').'',
                  new_messages_json result))
      else if intent = ''weather'' then
        (case weather_agent w
                (''Provide a weather forecast based on this request: '' @ prompt
                   @ ''. Note: This is a demo - provide realistic but fictional weather data.'')
                messages of
           Inl msg \<Rightarrow> Inl msg
         | Inr result \<Rightarrow>
             Inr (Some (WeatherForecast_model_dump (data result)),
                  ''Here's the weather forecast for '' @ location (data result) @ ''.'',
                  new_messages_json result))
      else if intent = ''review'' then
        (case review_agent w (''Provide a product review based on this request: '' @ prompt)
                messages of
           Inl msg \<Rightarrow> Inl msg
         | Inr result \<Rightarrow>
             Inr (Some (ProductReview_model_dump (data result)),
                  ''Here's a structured review for '' @ product_name (data result)
                    @ '' ('' @ str_int (rating (data result)) @ ''/5 stars).'',
                  new_messages_json result))
      else
        (case general_agent w prompt messages of
           Inl msg \<Rightarrow> Inl msg
         | Inr result \<Rightarrow> Inr (None, data result, new_messages_json result)))"

text \<open>
  What one run of \<open>stream_messages\<close> does, in program order: the chunks it yields and
  the calls it makes. A yielded chunk is kept as the dict that \<open>json.dumps\<close> writes on
  that line.
\<close>

datatype action =
    Yield dict
  | Call_detect_intent
  | Call_get_messages
  | Call_agent_run string
  | Call_add_messages string

text \<open>
  The result of a request: the actions in order, the exception that ended the stream
  (if any), and the table afterwards.
\<close>

record outcome =
  actions :: "action list"
  raised :: "error option"
  database_after :: Database

text \<open>The three dicts \<open>stream_messages\<close> builds: the user's echo, the reply, the error.\<close>

definition user_message :: "string \<Rightarrow> string \<Rightarrow> dict" where
  "user_message timestamp prompt =
     [(''role'', JStr ''user''),
      (''timestamp'', JStr timestamp),
      (''content'', JStr prompt),
      (''message_type'', JStr ''text''),
      (''structured_data'', JNull)]"

definition response_message :: "string \<Rightarrow> string \<Rightarrow> dict option \<Rightarrow> dict" where
  "response_message timestamp content structured_data =
     [(''role'', JStr ''model''),
      (''timestamp'', JStr timestamp),
      (''content'', JStr content),
      (''message_type'', JStr (if truthy structured_data then ''structured'' else ''text'')),
      (''structured_data'', json_of_optional_dict structured_data)]"

definition error_message :: "string \<Rightarrow> string \<Rightarrow> dict" where
  "error_message timestamp msg =
     [(''role'', JStr ''model''),
      (''timestamp'', JStr timestamp),
      (''content'', JStr (''Sorry, I encountered an error: '' @ msg)),
      (''message_type'', JStr ''text''),
      (''structured_data'', JNull)]"

text \<open>
  The body of \<open>stream_messages\<close>. The echo is yielded first; \<open>detect_intent\<close> and
  \<open>get_messages\<close> run outside the \<open>try\<close>, so an exception of \<open>get_messages\<close> ends the
  stream; the agent run, the reply and \<open>add_messages\<close> are inside it, so an exception
  of any of them is answered with the error dict.
\<close>

definition stream_messages :: "world \<Rightarrow> string \<Rightarrow> Database \<Rightarrow> outcome" where
  "stream_messages w prompt database =
     (let intent = detect_intent prompt;
          before_try = [Yield (user_message (now w 0) prompt), Call_detect_intent,
                        Call_get_messages]
      in case get_messages w database of
           Inl e \<Rightarrow>
             \<lparr>actions = before_try, raised = Some e, database_after = database\<rparr>
         | Inr messages \<Rightarrow>
             (case dispatch w intent prompt messages of
                Inl msg \<Rightarrow>
                  \<lparr>actions = before_try
                      @ [Call_agent_run intent, Yield (error_message (now w 1) msg)],
                   raised = None, database_after = database\<rparr>
              | Inr (structured_data, content, new_messages) \<Rightarrow>
                  (case add_messages w database new_messages of
                     Inl msg \<Rightarrow>
                       \<lparr>actions = before_try
                           @ [Call_agent_run intent,
                              Yield (response_message (now w 1) content structured_data),
                              Call_add_messages new_messages,
                              Yield (error_message (now w 2) msg)],
                        raised = None, database_after = database\<rparr>
                   | Inr database' \<Rightarrow>
                       \<lparr>actions = before_try
                           @ [Call_agent_run intent,
                              Yield (response_message (now w 1) content structured_data),
                              Call_add_messages new_messages],
                        raised = None, database_after = database'\<rparr>)))"

text \<open>The chunks of the streamed body, in order.\<close>

fun yielded :: "action list \<Rightarrow> dict list" where
  "yielded [] = []"
| "yielded (Yield d # as) = d # yielded as"
| "yielded (a # as) = yielded as"

section \<open>The ChatTurn invariant\<close>

text \<open>
  The two halves of the invariant the specification states for a chat turn, read on
  the dict sent to the browser: the content is a non-empty string, and
  \<open>structured_data\<close> is present (not null) exactly when \<open>message_type\<close> is
  \<open>structured\<close>.
\<close>

definition content_nonempty :: "dict \<Rightarrow> bool" where
  "content_nonempty d =
     (case map_of d ''content'' of Some (JStr s) \<Rightarrow> s \<noteq> [] | _ \<Rightarrow> False)"

definition structured_data_iff :: "dict \<Rightarrow> bool" where
  "structured_data_iff d =
     (case map_of d ''structured_data'' of
        None \<Rightarrow> False
      | Some v \<Rightarrow> (v \<noteq> JNull) = (map_of d ''message_type'' = Some (JStr ''structured'')))"

section \<open>The raw exchange of an agent run\<close>








section \<open>Concrete inputs\<close>

text \<open>
  A small world for the worked examples: records decode to a user prompt and a text
  reply, except the record of a structured run, which holds a tool call, and one
  record that does not decode.
\<close>

definition example_validate_json :: "string \<Rightarrow> string + ModelMessage list" where
  "example_validate_json row =
     (if row = ''not json'' then Inl ''Invalid JSON''
      else if row = ''tool call'' then
        Inr [ModelRequest [UserPromptPart (StrContent ''Provide a recipe based on this request: soup'')
                             ''2025-01-01T10:00:00+00:00''],
             ModelResponse [ToolCallPart ''final_result''] ''2025-01-01T10:00:01+00:00'',
             ModelRequest [ToolReturnPart ''final_result'']]
      else
        Inr [ModelRequest [UserPromptPart (StrContent row) ''2025-01-01T09:00:00+00:00''],
             ModelResponse [TextPart ''Hello!''] ''2025-01-01T09:00:01+00:00''])"

definition example_task :: "string \<Rightarrow> Task" where
  "example_task t =
     \<lparr>title = t, Task.description = ''Do it'', priority = MEDIUM,
      estimated_time = ''1 hour'', category = ''personal''\<rparr>"

definition example_task_list :: "TaskList AgentRunResult" where
  "example_task_list =
     \<lparr>data = \<lparr>tasks = [example_task ''Shop'', example_task ''Clean'', example_task ''Read''],
               total_tasks = 3, TaskList.summary = ''Three tasks for the week''\<rparr>,
      new_messages_json = ''tool call''\<rparr>"

definition example_recipe :: "Recipe AgentRunResult" where
  "example_recipe =
     \<lparr>data = \<lparr>name = ''Tomato soup'', description = ''A warm soup'',
               prep_time = ''10 minutes'', cook_time = ''20 minutes'', servings = 4,
               difficulty = Easy,
               ingredients = [\<lparr>RecipeIngredient.name = ''tomato'', amount = ''6'',
                                ingredient_notes = None\<rparr>],
               instructions = [''Chop'', ''Simmer'']\<rparr>,
      new_messages_json = ''tool call''\<rparr>"

definition example_forecast :: "WeatherForecast AgentRunResult" where
  "example_forecast =
     \<lparr>data = \<lparr>location = ''Paris'', current_condition = SUNNY, temperature = ''21 C'',
               humidity = ''40%'', wind_speed = ''10 km/h'',
               forecast_summary = ''Clear all day'', recommendations = [''Sunglasses'']\<rparr>,
      new_messages_json = ''tool call''\<rparr>"

definition example_review :: "ProductReview AgentRunResult" where
  "example_review =
     \<lparr>data = \<lparr>product_name = ''Blender'', rating = 4, pros = [''Quiet''], cons = [''Heavy''],
               summary = ''Solid'', recommendation = True\<rparr>,
      new_messages_json = ''tool call''\<rparr>"

definition example_world :: world where
  "example_world =
     \<lparr>now = (\<lambda>k. if k = 0 then ''2025-01-01T12:00:00+00:00''
                 else if k = 1 then ''2025-01-01T12:00:01+00:00''
                 else ''2025-01-01T12:00:02+00:00''),
      task_agent = (\<lambda>p h. Inr example_task_list),
      recipe_agent = (\<lambda>p h. Inr example_recipe),
      weather_agent = (\<lambda>p h. Inr example_forecast),
      review_agent = (\<lambda>p h. Inr example_review),
      general_agent = (\<lambda>p h. Inr \<lparr>data = ''Hello!'', new_messages_json = p\<rparr>),
      validate_json = example_validate_json,
      select_error = None,
      insert_error = None,
      pick_rowid = (\<lambda>ids. 1)\<rparr>"

text \<open>The same world with a review agent whose run raises a transport error.\<close>

definition failing_review_world :: world where
  "failing_review_world =
     example_world\<lparr>review_agent := (\<lambda>p h. Inl ''Connection error.'')\<rparr>"

text \<open>
  A world whose agents keep the shape the library gives the messages of a run. A
  run is stored as a tag followed by the prompt the run was given: a text run
  decodes to the request with that prompt and a text response; a structured run
  decodes to the request, the response that calls the result tool and the request
  that returns it.
\<close>

fun library_validate_json :: "string \<Rightarrow> string + ModelMessage list" where
  "library_validate_json [] = Inl ''Invalid JSON''"
| "library_validate_json (tag # p) =
     (if tag = CHR ''G'' then
        Inr [ModelRequest [UserPromptPart (StrContent p) ''2025-01-01T10:00:00+00:00''],
             ModelResponse [TextPart ''Hello!''] ''2025-01-01T10:00:01+00:00'']
      else if tag = CHR ''S'' then
        Inr [ModelRequest [UserPromptPart (StrContent p) ''2025-01-01T10:00:00+00:00''],
             ModelResponse [ToolCallPart ''final_result''] ''2025-01-01T10:00:01+00:00'',
             ModelRequest [ToolReturnPart ''final_result'']]
      else Inl ''Invalid JSON'')"

definition library_world :: world where
  "library_world =
     example_world
       \<lparr>task_agent := (\<lambda>p h. Inr (example_task_list\<lparr>new_messages_json := CHR ''S'' # p\<rparr>)),
        recipe_agent := (\<lambda>p h. Inr (example_recipe\<lparr>new_messages_json := CHR ''S'' # p\<rparr>)),
        weather_agent := (\<lambda>p h. Inr (example_forecast\<lparr>new_messages_json := CHR ''S'' # p\<rparr>)),
        review_agent := (\<lambda>p h. Inr (example_review\<lparr>new_messages_json := CHR ''S'' # p\<rparr>)),
        general_agent := (\<lambda>p h. Inr \<lparr>data = ''Hello!'', new_messages_json = CHR ''G'' # p\<rparr>),
        validate_json := library_validate_json\<rparr>"

section \<open>Properties of the intent detection\<close>

lemma str_in_sublist: "str_in w s \<longleftrightarrow> sublist w s"
  by (induction s) (auto simp: sublist_Cons_right)

lemma list_ex_str_in: "list_ex (\<lambda>word. str_in word s) ws \<longleftrightarrow> (\<exists>k \<in> set ws. sublist k s)"
  by (simp add: list_ex_iff str_in_sublist)

lemma detect_intent_first_match: "detect_intent prompt = first_match keyword_groups (lower prompt)"
  unfolding detect_intent_def keyword_groups_def Let_def list_ex_str_in
  by simp

lemma isspace_lower_char: "isspace c \<Longrightarrow> lower_char c = c"
  by (auto simp: isspace_def lower_char_def Let_def)

lemma lower_whitespace: "\<forall>c \<in> set s. isspace c \<Longrightarrow> lower s = s"
  by (simp add: lower_def isspace_lower_char map_idI)

lemma sublist_lower: "sublist k s \<Longrightarrow> sublist (lower k) (lower s)"
  unfolding lower_def by (rule map_mono_sublist)

lemma sublist_hd_in_set: "sublist k s \<Longrightarrow> k \<noteq> [] \<Longrightarrow> hd k \<in> set s"
  using set_mono_sublist [of k s] by (cases k) auto

lemma whitespace_no_keyword:
  assumes "\<forall>c \<in> set s. isspace c" and "k \<noteq> []" and "\<not> isspace (hd k)"
  shows "\<not> sublist k (lower s)"
proof
  assume "sublist k (lower s)"
  with assms(1) have "sublist k s" by (simp add: lower_whitespace)
  then have "hd k \<in> set s" using assms(2) by (rule sublist_hd_in_set)
  with assms(1,3) show False by blast
qed

lemma detect_intent_whitespace:
  assumes "\<forall>c \<in> set prompt. isspace c"
  shows "detect_intent prompt = ''general''"
  unfolding detect_intent_def Let_def list_ex_str_in
  using assms by (simp add: whitespace_no_keyword isspace_def)

lemma tasks_keyword_lower:
  "k \<in> {''task'', ''todo'', ''plan'', ''schedule'', ''organize''} \<Longrightarrow> lower k = k"
  by (auto simp: lower_def lower_char_def)

lemma detect_intent_tasks_first:
  assumes "k \<in> {''task'', ''todo'', ''plan'', ''schedule'', ''organize''}" and "sublist k (lower prompt)"
  shows "detect_intent prompt = ''tasks''"
  unfolding detect_intent_def Let_def list_ex_str_in
  using assms by auto

text \<open>
  C1. \<open>detect_intent\<close> is the first-match classifier over the lower-cased prompt with
  the groups in the order tasks, recipe, weather, review, and \<open>general\<close> when no group
  matches. A prompt in which a tasks keyword occurs (as typed, or after lower-casing)
  is classified as \<open>tasks\<close> whatever else it contains; the empty prompt and every
  prompt of whitespace only are classified as \<open>general\<close>.
\<close>

theorem detect_intent_priority_order:
  "detect_intent prompt = first_match keyword_groups (lower prompt)
   \<and> map fst keyword_groups = [''tasks'', ''recipe'', ''weather'', ''review'']
   \<and> ((\<exists>k \<in> {''task'', ''todo'', ''plan'', ''schedule'', ''organize''}.
          sublist k prompt \<or> sublist k (lower prompt)) \<longrightarrow> detect_intent prompt = ''tasks'')
   \<and> detect_intent [] = ''general''
   \<and> ((\<forall>c \<in> set prompt. isspace c) \<longrightarrow> detect_intent prompt = ''general'')"
proof (intro conjI impI)
  show "detect_intent prompt = first_match keyword_groups (lower prompt)"
    by (rule detect_intent_first_match)
  show "map fst keyword_groups = [''tasks'', ''recipe'', ''weather'', ''review'']"
    by (simp add: keyword_groups_def)
  show "detect_intent [] = ''general''"
    by (rule detect_intent_whitespace) simp
next
  assume "\<exists>k \<in> {''task'', ''todo'', ''plan'', ''schedule'', ''organize''}.
            sublist k prompt \<or> sublist k (lower prompt)"
  then obtain k where k: "k \<in> {''task'', ''todo'', ''plan'', ''schedule'', ''organize''}"
    and "sublist k prompt \<or> sublist k (lower prompt)" by blast
  then have "sublist k (lower prompt)"
    using sublist_lower [of k prompt] tasks_keyword_lower [OF k] by auto
  with k show "detect_intent prompt = ''tasks''" by (rule detect_intent_tasks_first)
next
  assume "\<forall>c \<in> set prompt. isspace c"
  then show "detect_intent prompt = ''general''" by (rule detect_intent_whitespace)
qed

theorem detect_intent_priority_order_witness:
  "detect_intent ''Cook a meal PLAN with rain'' = ''tasks''
   \<and> detect_intent [CHR '' '', CHR 0x09, CHR 0x0A] = ''general''"
proof -
  have "sublist ''plan'' (lower ''Cook a meal PLAN with rain'')"
    by code_simp
  then have "sublist ''plan'' ''Cook a meal PLAN with rain''
      \<or> sublist ''plan'' (lower ''Cook a meal PLAN with rain'')"
    by (rule disjI2)
  then have tasks: "\<exists>k \<in> {''task'', ''todo'', ''plan'', ''schedule'', ''organize''}.
      sublist k ''Cook a meal PLAN with rain'' \<or> sublist k (lower ''Cook a meal PLAN with rain'')"
    by (rule bexI [where x = "''plan''"]) simp
  have blank: "\<forall>c \<in> set [CHR '' '', CHR 0x09, CHR 0x0A]. isspace c"
    by (simp add: isspace_def)
  have "detect_intent ''Cook a meal PLAN with rain'' = ''tasks''"
    using detect_intent_priority_order [of "''Cook a meal PLAN with rain''",
        THEN conjunct2, THEN conjunct2, THEN conjunct1] tasks
    by (rule mp)
  moreover have "detect_intent [CHR '' '', CHR 0x09, CHR 0x0A] = ''general''"
    using detect_intent_priority_order [of "[CHR '' '', CHR 0x09, CHR 0x0A]",
        THEN conjunct2, THEN conjunct2, THEN conjunct2, THEN conjunct2] blank
    by (rule mp)
  ultimately show ?thesis by (rule conjI)
qed

text \<open>
  C10. The keyword sets are exactly the four listed, tried in the order tasks, recipe,
  weather, review on the lower-cased prompt, with \<open>general\<close> as the fallback; so a
  prompt with \<open>opinion\<close> or \<open>recommend\<close> and no keyword of an earlier group is
  classified as \<open>review\<close>.
\<close>

theorem detect_intent_keyword_sets:
  "detect_intent prompt =
     (if \<exists>k \<in> {''task'', ''todo'', ''plan'', ''schedule'', ''organize''}.
           sublist k (lower prompt) then ''tasks''
      else if \<exists>k \<in> {''recipe'', ''cook'', ''ingredient'', ''dish'', ''meal''}.
           sublist k (lower prompt) then ''recipe''
      else if \<exists>k \<in> {''weather'', ''forecast'', ''temperature'', ''rain'', ''sunny''}.
           sublist k (lower prompt) then ''weather''
      else if \<exists>k \<in> {''review'', ''product'', ''rating'', ''recommend'', ''opinion''}.
           sublist k (lower prompt) then ''review''
      else ''general'')
   \<and> ((sublist ''opinion'' (lower prompt) \<or> sublist ''recommend'' (lower prompt))
        \<and> \<not> (\<exists>k \<in> {''task'', ''todo'', ''plan'', ''schedule'', ''organize'',
                       ''recipe'', ''cook'', ''ingredient'', ''dish'', ''meal'',
                       ''weather'', ''forecast'', ''temperature'', ''rain'', ''sunny''}.
                 sublist k (lower prompt))
        \<longrightarrow> detect_intent prompt = ''review'')"
proof -
  have chain: "detect_intent prompt =
     (if \<exists>k \<in> {''task'', ''todo'', ''plan'', ''schedule'', ''organize''}.
           sublist k (lower prompt) then ''tasks''
      else if \<exists>k \<in> {''recipe'', ''cook'', ''ingredient'', ''dish'', ''meal''}.
           sublist k (lower prompt) then ''recipe''
      else if \<exists>k \<in> {''weather'', ''forecast'', ''temperature'', ''rain'', ''sunny''}.
           sublist k (lower prompt) then ''weather''
      else if \<exists>k \<in> {''review'', ''product'', ''rating'', ''recommend'', ''opinion''}.
           sublist k (lower prompt) then ''review''
      else ''general'')"
    unfolding detect_intent_def Let_def list_ex_str_in by simp
  show ?thesis
  proof (intro conjI impI)
    show "detect_intent prompt =
     (if \<exists>k \<in> {''task'', ''todo'', ''plan'', ''schedule'', ''organize''}.
           sublist k (lower prompt) then ''tasks''
      else if \<exists>k \<in> {''recipe'', ''cook'', ''ingredient'', ''dish'', ''meal''}.
           sublist k (lower prompt) then ''recipe''
      else if \<exists>k \<in> {''weather'', ''forecast'', ''temperature'', ''rain'', ''sunny''}.
           sublist k (lower prompt) then ''weather''
      else if \<exists>k \<in> {''review'', ''product'', ''rating'', ''recommend'', ''opinion''}.
           sublist k (lower prompt) then ''review''
      else ''general'')"
      by (rule chain)
  next
    assume h: "(sublist ''opinion'' (lower prompt) \<or> sublist ''recommend'' (lower prompt))
        \<and> \<not> (\<exists>k \<in> {''task'', ''todo'', ''plan'', ''schedule'', ''organize'',
                       ''recipe'', ''cook'', ''ingredient'', ''dish'', ''meal'',
                       ''weather'', ''forecast'', ''temperature'', ''rain'', ''sunny''}.
                 sublist k (lower prompt))"
    then have "\<not> (\<exists>k \<in> {''task'', ''todo'', ''plan'', ''schedule'', ''organize''}.
                    sublist k (lower prompt))"
      and "\<not> (\<exists>k \<in> {''recipe'', ''cook'', ''ingredient'', ''dish'', ''meal''}.
                    sublist k (lower prompt))"
      and "\<not> (\<exists>k \<in> {''weather'', ''forecast'', ''temperature'', ''rain'', ''sunny''}.
                    sublist k (lower prompt))"
      by simp_all
    moreover from h have "\<exists>k \<in> {''review'', ''product'', ''rating'', ''recommend'', ''opinion''}.
                    sublist k (lower prompt)"
      by auto
    ultimately show "detect_intent prompt = ''review''"
      by (simp only: chain if_True if_False)
  qed
qed

theorem detect_intent_keyword_sets_witness:
  "detect_intent ''What is your OPINION of it?'' = ''review''"
proof -
  have "(sublist ''opinion'' (lower ''What is your OPINION of it?'')
          \<or> sublist ''recommend'' (lower ''What is your OPINION of it?''))
        \<and> \<not> (\<exists>k \<in> {''task'', ''todo'', ''plan'', ''schedule'', ''organize'',
                       ''recipe'', ''cook'', ''ingredient'', ''dish'', ''meal'',
                       ''weather'', ''forecast'', ''temperature'', ''rain'', ''sunny''}.
                 sublist k (lower ''What is your OPINION of it?''))"
    by code_simp
  with detect_intent_keyword_sets [of "''What is your OPINION of it?''", THEN conjunct2]
  show ?thesis by (rule mp)
qed

section \<open>Properties of the message store\<close>

lemma insort_key_snoc:
  "f x \<le> f y \<Longrightarrow> insort_key f x (zs @ [y]) = insort_key f x zs @ [y]"
  by (induction zs) auto

lemma foldr_insort_key_snoc:
  "\<forall>x \<in> set xs. f x \<le> f y
   \<Longrightarrow> foldr (insort_key f) xs (zs @ [y]) = foldr (insort_key f) xs zs @ [y]"
  by (induction xs) (auto simp: insort_key_snoc)

lemma sort_key_snoc:
  assumes "\<forall>x \<in> set xs. f x \<le> f y"
  shows "sort_key f (xs @ [y]) = sort_key f xs @ [y]"
  using foldr_insort_key_snoc [OF assms, of "[]"] by (simp add: sort_key_def)

lemma extend_rows_snoc:
  "extend_rows validate (rows @ [row]) messages =
     (case extend_rows validate rows messages of
        Inl e \<Rightarrow> Inl e
      | Inr old \<Rightarrow>
          (case validate row of
             Inl msg \<Rightarrow> Inl (ValidationError msg)
           | Inr new \<Rightarrow> Inr (old @ new)))"
  by (induction rows arbitrary: messages) (auto split: sum.splits)

lemma rowid_le_next_rowid:
  assumes "\<forall>r \<in> set db. fst r < 9223372036854775807" and "r \<in> set db"
  shows "fst r \<le> next_rowid pick db"
proof -
  from assms(2) have ne: "db \<noteq> []" by auto
  have fin: "finite (set (map fst db))" by simp
  from assms(2) have mem: "fst r \<in> set (map fst db)" by simp
  have le: "fst r \<le> Max (set (map fst db))" using fin mem by (rule Max_ge)
  have "Max (set (map fst db)) \<in> set (map fst db)"
    using fin ne by (intro Max_in) auto
  then obtain r' where "r' \<in> set db" and "Max (set (map fst db)) = fst r'" by auto
  with assms(1) have "Max (set (map fst db)) < 9223372036854775807" by auto
  with ne le show ?thesis by (simp add: next_rowid_def Let_def)
qed

lemma get_messages_snoc:
  assumes "\<forall>r \<in> set db. fst r < 9223372036854775807"
  shows "get_messages w (db @ [(next_rowid pick db, exchange)]) =
     (case get_messages w db of
        Inl e \<Rightarrow> Inl e
      | Inr old \<Rightarrow>
          (case validate_json w exchange of
             Inl msg \<Rightarrow> Inl (ValidationError msg)
           | Inr new \<Rightarrow> Inr (old @ new)))"
proof -
  have "\<forall>r \<in> set db. fst r \<le> fst (next_rowid pick db, exchange)"
    using rowid_le_next_rowid [OF assms] by simp
  then have "sort_key fst (db @ [(next_rowid pick db, exchange)])
      = sort_key fst db @ [(next_rowid pick db, exchange)]"
    by (rule sort_key_snoc)
  then show ?thesis
    by (simp add: get_messages_def extend_rows_snoc split: option.splits)
qed

text \<open>
  C6. Appending an exchange and reading the store back gives the turns stored before,
  followed by the turns of the appended exchange, each once and in insertion order.
  Here the store reads and writes without an SQLite error, its row ids are below
  the largest one SQLite has, and the stored records and the exchange decode.
\<close>

theorem add_messages_then_get_messages:
  assumes "insert_error w = None"
    and "\<forall>r \<in> set db. fst r < 9223372036854775807"
    and "get_messages w db = Inr old"
    and "validate_json w exchange = Inr new"
  shows "\<exists>db'. add_messages w db exchange = Inr db' \<and> get_messages w db' = Inr (old @ new)"
proof -
  have "add_messages w db exchange = Inr (db @ [(next_rowid (pick_rowid w) db, exchange)])"
    using assms(1) by (simp add: add_messages_def)
  moreover have "get_messages w (db @ [(next_rowid (pick_rowid w) db, exchange)]) = Inr (old @ new)"
    using get_messages_snoc [OF assms(2), of w "pick_rowid w" exchange] assms(3,4) by simp
  ultimately show ?thesis by blast
qed

theorem add_messages_then_get_messages_witness:
  "\<exists>db'. add_messages example_world [(2, ''second''), (1, ''first'')] ''third'' = Inr db'
     \<and> get_messages example_world db' =
        Inr [ModelRequest [UserPromptPart (StrContent ''first'') ''2025-01-01T09:00:00+00:00''],
             ModelResponse [TextPart ''Hello!''] ''2025-01-01T09:00:01+00:00'',
             ModelRequest [UserPromptPart (StrContent ''second'') ''2025-01-01T09:00:00+00:00''],
             ModelResponse [TextPart ''Hello!''] ''2025-01-01T09:00:01+00:00'',
             ModelRequest [UserPromptPart (StrContent ''third'') ''2025-01-01T09:00:00+00:00''],
             ModelResponse [TextPart ''Hello!''] ''2025-01-01T09:00:01+00:00'']"
proof -
  have b: "insert_error example_world = None"
    by (simp add: example_world_def)
  have c: "\<forall>r \<in> set [(2, ''second''), (1::int, ''first'')]. fst r < 9223372036854775807"
    by simp
  have d: "get_messages example_world [(2, ''second''), (1, ''first'')] =
        Inr [ModelRequest [UserPromptPart (StrContent ''first'') ''2025-01-01T09:00:00+00:00''],
             ModelResponse [TextPart ''Hello!''] ''2025-01-01T09:00:01+00:00'',
             ModelRequest [UserPromptPart (StrContent ''second'') ''2025-01-01T09:00:00+00:00''],
             ModelResponse [TextPart ''Hello!''] ''2025-01-01T09:00:01+00:00'']"
    by (simp add: get_messages_def example_world_def example_validate_json_def)
  have e: "validate_json example_world ''third'' =
        Inr [ModelRequest [UserPromptPart (StrContent ''third'') ''2025-01-01T09:00:00+00:00''],
             ModelResponse [TextPart ''Hello!''] ''2025-01-01T09:00:01+00:00'']"
    by (simp add: example_world_def example_validate_json_def)
  show ?thesis
    using add_messages_then_get_messages [OF b c d e] by simp
qed

section \<open>Properties of the streamed request\<close>

lemma stream_messages_read_failed:
  assumes "get_messages w db = Inl e"
  shows "stream_messages w prompt db =
     \<lparr>actions = [Yield (user_message (now w 0) prompt), Call_detect_intent, Call_get_messages],
      raised = Some e, database_after = db\<rparr>"
  using assms by (simp add: stream_messages_def)

lemma stream_messages_agent_failed:
  assumes "get_messages w db = Inr history"
    and "dispatch w (detect_intent prompt) prompt history = Inl msg"
  shows "stream_messages w prompt db =
     \<lparr>actions = [Yield (user_message (now w 0) prompt), Call_detect_intent, Call_get_messages,
                 Call_agent_run (detect_intent prompt), Yield (error_message (now w 1) msg)],
      raised = None, database_after = db\<rparr>"
  using assms by (simp add: stream_messages_def)

lemma stream_messages_write_failed:
  assumes "get_messages w db = Inr history"
    and "dispatch w (detect_intent prompt) prompt history = Inr (structured_data, content, new_messages)"
    and "add_messages w db new_messages = Inl msg"
  shows "stream_messages w prompt db =
     \<lparr>actions = [Yield (user_message (now w 0) prompt), Call_detect_intent, Call_get_messages,
                 Call_agent_run (detect_intent prompt),
                 Yield (response_message (now w 1) content structured_data),
                 Call_add_messages new_messages,
                 Yield (error_message (now w 2) msg)],
      raised = None, database_after = db\<rparr>"
  using assms by (simp add: stream_messages_def)

lemma stream_messages_succeeded:
  assumes "get_messages w db = Inr history"
    and "dispatch w (detect_intent prompt) prompt history = Inr (structured_data, content, new_messages)"
    and "add_messages w db new_messages = Inr db'"
  shows "stream_messages w prompt db =
     \<lparr>actions = [Yield (user_message (now w 0) prompt), Call_detect_intent, Call_get_messages,
                 Call_agent_run (detect_intent prompt),
                 Yield (response_message (now w 1) content structured_data),
                 Call_add_messages new_messages],
      raised = None, database_after = db'\<rparr>"
  using assms by (simp add: stream_messages_def)

text \<open>The four ways a request can go.\<close>

lemma stream_messages_cases:
  obtains (read_failed) e where "get_messages w db = Inl e"
  | (agent_failed) history msg where "get_messages w db = Inr history"
      and "dispatch w (detect_intent prompt) prompt history = Inl msg"
  | (write_failed) history structured_data content new_messages msg where
      "get_messages w db = Inr history"
      and "dispatch w (detect_intent prompt) prompt history
             = Inr (structured_data, content, new_messages)"
      and "add_messages w db new_messages = Inl msg"
  | (succeeded) history structured_data content new_messages db' where
      "get_messages w db = Inr history"
      and "dispatch w (detect_intent prompt) prompt history
             = Inr (structured_data, content, new_messages)"
      and "add_messages w db new_messages = Inr db'"
proof (cases "get_messages w db")
  case (Inl e)
  then show ?thesis by (rule read_failed)
next
  case (Inr history)
  note h = this
  show ?thesis
  proof (cases "dispatch w (detect_intent prompt) prompt history")
    case (Inl msg)
    with h show ?thesis by (rule agent_failed)
  next
    case (Inr triple)
    obtain structured_data content new_messages
      where t: "triple = (structured_data, content, new_messages)"
      by (cases triple) auto
    show ?thesis
    proof (cases "add_messages w db new_messages")
      case (Inl msg)
      with h Inr t show ?thesis by (auto intro: write_failed)
    next
      case (Inr db')
      with h \<open>dispatch w (detect_intent prompt) prompt history = Inr triple\<close> t
      show ?thesis by (auto intro: succeeded)
    qed
  qed
qed

text \<open>
  C3. The first thing a request does is to yield the user's echo (role user, type
  text, the prompt as content); classification, the store read, every agent run and
  every model turn come after it.
\<close>

theorem user_echo_is_first:
  "\<exists>rest replies.
     actions (stream_messages w prompt db) =
       Yield [(''role'', JStr ''user''),
              (''timestamp'', JStr (now w 0)),
              (''content'', JStr prompt),
              (''message_type'', JStr ''text''),
              (''structured_data'', JNull)]
         # Call_detect_intent # Call_get_messages # rest
     \<and> yielded (actions (stream_messages w prompt db)) =
       [(''role'', JStr ''user''),
        (''timestamp'', JStr (now w 0)),
        (''content'', JStr prompt),
        (''message_type'', JStr ''text''),
        (''structured_data'', JNull)] # replies
     \<and> list_all (\<lambda>d. map_of d ''role'' = Some (JStr ''model'')) replies"
proof (cases rule: stream_messages_cases [where w = w and db = db and prompt = prompt])
  case (read_failed e)
  then show ?thesis
    by (simp add: stream_messages_read_failed user_message_def)
next
  case (agent_failed history msg)
  then show ?thesis
    by (simp add: stream_messages_agent_failed user_message_def error_message_def)
next
  case (write_failed history structured_data content new_messages msg)
  then show ?thesis
    by (simp add: stream_messages_write_failed [OF write_failed]
        user_message_def error_message_def response_message_def)
next
  case (succeeded history structured_data content new_messages db')
  then show ?thesis
    by (simp add: stream_messages_succeeded [OF succeeded]
        user_message_def response_message_def)
qed


theorem user_echo_is_first_witness:
  "\<exists>rest replies.
     actions (stream_messages failing_review_world ''Review my blender'' []) =
       Yield [(''role'', JStr ''user''),
              (''timestamp'', JStr ''2025-01-01T12:00:00+00:00''),
              (''content'', JStr ''Review my blender''),
              (''message_type'', JStr ''text''),
              (''structured_data'', JNull)]
         # Call_detect_intent # Call_get_messages # rest
     \<and> yielded (actions (stream_messages failing_review_world ''Review my blender'' [])) =
       [(''role'', JStr ''user''),
        (''timestamp'', JStr ''2025-01-01T12:00:00+00:00''),
        (''content'', JStr ''Review my blender''),
        (''message_type'', JStr ''text''),
        (''structured_data'', JNull)] # replies
     \<and> list_all (\<lambda>d. map_of d ''role'' = Some (JStr ''model'')) replies"
proof -
  have clock: "now failing_review_world 0 = ''2025-01-01T12:00:00+00:00''"
    by (simp add: failing_review_world_def example_world_def)
  show ?thesis
    using user_echo_is_first [of failing_review_world "''Review my blender''" "[]"]
    by (simp only: clock)
qed

lemma dispatch_failed_iff:
  "dispatch w intent prompt history = Inl msg \<longleftrightarrow>
     (if intent = ''tasks'' then
        task_agent w (''Create a task list based on this request: '' @ prompt) history = Inl msg
      else if intent = ''recipe'' then
        recipe_agent w (''Provide a recipe based on this request: '' @ prompt) history = Inl msg
      else if intent = ''weather'' then
        weather_agent w
          (''Provide a weather forecast based on this request: '' @ prompt
             @ ''. Note: This is a demo - provide realistic but fictional weather data.'')
          history = Inl msg
      else if intent = ''review'' then
        review_agent w (''Provide a product review based on this request: '' @ prompt) history
          = Inl msg
      else general_agent w prompt history = Inl msg)"
  by (simp add: dispatch_def split: sum.splits)

text \<open>
  C2. When the agent run of a request fails with message \<open>msg\<close>, the stream is the
  user's echo followed by one model turn with content
  \<open>Sorry, I encountered an error: msg\<close>, type text and no structured data; the stream
  ends without an exception, \<open>add_messages\<close> is never called and the store is as
  before.
\<close>

theorem agent_failure_is_answered_in_band:
  assumes "get_messages w db = Inr history"
    and "dispatch w (detect_intent prompt) prompt history = Inl msg"
  shows "yielded (actions (stream_messages w prompt db)) =
           [user_message (now w 0) prompt,
            [(''role'', JStr ''model''),
             (''timestamp'', JStr (now w 1)),
             (''content'', JStr (''Sorry, I encountered an error: '' @ msg)),
             (''message_type'', JStr ''text''),
             (''structured_data'', JNull)]]
         \<and> raised (stream_messages w prompt db) = None
         \<and> database_after (stream_messages w prompt db) = db
         \<and> (\<forall>x. Call_add_messages x \<notin> set (actions (stream_messages w prompt db)))"
proof -
  note run = stream_messages_agent_failed [OF assms]
  have "yielded (actions (stream_messages w prompt db)) =
      [user_message (now w 0) prompt, error_message (now w 1) msg]"
    by (simp add: run)
  then have chunks: "yielded (actions (stream_messages w prompt db)) =
           [user_message (now w 0) prompt,
            [(''role'', JStr ''model''),
             (''timestamp'', JStr (now w 1)),
             (''content'', JStr (''Sorry, I encountered an error: '' @ msg)),
             (''message_type'', JStr ''text''),
             (''structured_data'', JNull)]]"
    by (simp add: error_message_def)
  have ended: "raised (stream_messages w prompt db) = None"
    and table: "database_after (stream_messages w prompt db) = db"
    by (simp_all add: run)
  have "\<forall>x. Call_add_messages x \<notin> set (actions (stream_messages w prompt db))"
    by (simp add: run)
  with chunks ended table show ?thesis
    by (intro conjI)
qed

theorem agent_failure_is_answered_in_band_witness:
  "yielded (actions (stream_messages failing_review_world ''Review my blender'' [(1, ''hi'')])) =
     [[(''role'', JStr ''user''),
       (''timestamp'', JStr ''2025-01-01T12:00:00+00:00''),
       (''content'', JStr ''Review my blender''),
       (''message_type'', JStr ''text''),
       (''structured_data'', JNull)],
      [(''role'', JStr ''model''),
       (''timestamp'', JStr ''2025-01-01T12:00:01+00:00''),
       (''content'', JStr ''Sorry, I encountered an error: Connection error.''),
       (''message_type'', JStr ''text''),
       (''structured_data'', JNull)]]
   \<and> raised (stream_messages failing_review_world ''Review my blender'' [(1, ''hi'')]) = None
   \<and> database_after (stream_messages failing_review_world ''Review my blender'' [(1, ''hi'')])
       = [(1, ''hi'')]"
proof -
  have read: "get_messages failing_review_world [(1, ''hi'')] =
      Inr [ModelRequest [UserPromptPart (StrContent ''hi'') ''2025-01-01T09:00:00+00:00''],
           ModelResponse [TextPart ''Hello!''] ''2025-01-01T09:00:01+00:00'']"
    by (simp add: get_messages_def failing_review_world_def example_world_def
        example_validate_json_def)
  have intent: "detect_intent ''Review my blender'' = ''review''"
    by code_simp
  have run: "dispatch failing_review_world (detect_intent ''Review my blender'')
      ''Review my blender''
      [ModelRequest [UserPromptPart (StrContent ''hi'') ''2025-01-01T09:00:00+00:00''],
       ModelResponse [TextPart ''Hello!''] ''2025-01-01T09:00:01+00:00'']
      = Inl ''Connection error.''"
    unfolding intent by (simp add: dispatch_def failing_review_world_def)
  have clock: "now failing_review_world 0 = ''2025-01-01T12:00:00+00:00''"
    "now failing_review_world (Suc 0) = ''2025-01-01T12:00:01+00:00''"
    by (simp_all add: failing_review_world_def example_world_def)
  show ?thesis
    using agent_failure_is_answered_in_band [OF read run]
    by (simp add: clock user_message_def)
qed









lemma second_chunk_is_reply:
  assumes "get_messages w db = Inr history"
    and "dispatch w (detect_intent prompt) prompt history
           = Inr (structured_data, content, new_messages)"
  shows "yielded (actions (stream_messages w prompt db)) ! 1
           = response_message (now w 1) content structured_data"
proof (cases "add_messages w db new_messages")
  case (Inl msg)
  show ?thesis by (simp add: stream_messages_write_failed [OF assms Inl])
next
  case (Inr db')
  show ?thesis by (simp add: stream_messages_succeeded [OF assms Inr])
qed

text \<open>
  C8. After a successful agent run the model turn is the second chunk of the stream
  and its content is the template of the intent filled from the result: the task
  count for tasks; difficulty, name and servings for recipe; the location for
  weather; product name and rating for review; the agent's text itself for general.
\<close>

theorem reply_content_follows_template:
  assumes "get_messages w db = Inr history"
  shows "(detect_intent prompt = ''tasks''
          \<and> task_agent w (''Create a task list based on this request: '' @ prompt) history
              = Inr task_list
          \<longrightarrow> yielded (actions (stream_messages w prompt db)) ! 1 =
              [(''role'', JStr ''model''),
               (''timestamp'', JStr (now w 1)),
               (''content'', JStr (''I've created a structured task list for you with ''
                                    @ str_int (total_tasks (data task_list)) @ '' tasks.'')),
               (''message_type'', JStr ''structured''),
               (''structured_data'', JDict (TaskList_model_dump (data task_list)))])
       \<and> (detect_intent prompt = ''recipe''
          \<and> recipe_agent w (''Provide a recipe based on this request: '' @ prompt) history
              = Inr recipe
          \<longrightarrow> yielded (actions (stream_messages w prompt db)) ! 1 =
              [(''role'', JStr ''model''),
               (''timestamp'', JStr (now w 1)),
               (''content'', JStr (''Here's a '' @ Difficulty_value (difficulty (data recipe))
                                    @ '' recipe for '' @ Recipe.name (data recipe)
                                    @ '' (serves '' @ str_int (servings (data recipe)) @ '').'')),
               (''message_type'', JStr ''structured''),
               (''structured_data'', JDict (Recipe_model_dump (data recipe)))])
       \<and> (detect_intent prompt = ''weather''
          \<and> weather_agent w
                (''Provide a weather forecast based on this request: '' @ prompt
                   @ ''. Note: This is a demo - provide realistic but fictional weather data.'')
                history
              = Inr forecast
          \<longrightarrow> yielded (actions (stream_messages w prompt db)) ! 1 =
              [(''role'', JStr ''model''),
               (''timestamp'', JStr (now w 1)),
               (''content'', JStr (''Here's the weather forecast for ''
                                    @ location (data forecast) @ ''.'')),
               (''message_type'', JStr ''structured''),
               (''structured_data'', JDict (WeatherForecast_model_dump (data forecast)))])
       \<and> (detect_intent prompt = ''review''
          \<and> review_agent w (''Provide a product review based on this request: '' @ prompt) history
              = Inr review
          \<longrightarrow> yielded (actions (stream_messages w prompt db)) ! 1 =
              [(''role'', JStr ''model''),
               (''timestamp'', JStr (now w 1)),
               (''content'', JStr (''Here's a structured review for ''
                                    @ product_name (data review)
                                    @ '' ('' @ str_int (rating (data review)) @ ''/5 stars).'')),
               (''message_type'', JStr ''structured''),
               (''structured_data'', JDict (ProductReview_model_dump (data review)))])
       \<and> (detect_intent prompt = ''general''
          \<and> general_agent w prompt history = Inr reply
          \<longrightarrow> yielded (actions (stream_messages w prompt db)) ! 1 =
              [(''role'', JStr ''model''),
               (''timestamp'', JStr (now w 1)),
               (''content'', JStr (data reply)),
               (''message_type'', JStr ''text''),
               (''structured_data'', JNull)])"
proof (intro conjI impI; elim conjE)
  assume i: "detect_intent prompt = ''tasks''"
    and r: "task_agent w (''Create a task list based on this request: '' @ prompt) history
              = Inr task_list"
  have "dispatch w (detect_intent prompt) prompt history =
      Inr (Some (TaskList_model_dump (data task_list)),
           ''I've created a structured task list for you with ''
             @ str_int (total_tasks (data task_list)) @ '' tasks.'',
           new_messages_json task_list)"
    using r unfolding i by (simp add: dispatch_def)
  from second_chunk_is_reply [OF assms this]
  show "yielded (actions (stream_messages w prompt db)) ! 1 =
              [(''role'', JStr ''model''),
               (''timestamp'', JStr (now w 1)),
               (''content'', JStr (''I've created a structured task list for you with ''
                                    @ str_int (total_tasks (data task_list)) @ '' tasks.'')),
               (''message_type'', JStr ''structured''),
               (''structured_data'', JDict (TaskList_model_dump (data task_list)))]"
    by (simp add: response_message_def TaskList_model_dump_def)
next
  assume i: "detect_intent prompt = ''recipe''"
    and r: "recipe_agent w (''Provide a recipe based on this request: '' @ prompt) history
              = Inr recipe"
  have "dispatch w (detect_intent prompt) prompt history =
      Inr (Some (Recipe_model_dump (data recipe)),
           ''Here's a '' @ Difficulty_value (difficulty (data recipe))
             @ '' recipe for '' @ Recipe.name (data recipe)
             @ '' (serves '' @ str_int (servings (data recipe)) @ '').'',
           new_messages_json recipe)"
    using r unfolding i by (simp add: dispatch_def)
  from second_chunk_is_reply [OF assms this]
  show "yielded (actions (stream_messages w prompt db)) ! 1 =
              [(''role'', JStr ''model''),
               (''timestamp'', JStr (now w 1)),
               (''content'', JStr (''Here's a '' @ Difficulty_value (difficulty (data recipe))
                                    @ '' recipe for '' @ Recipe.name (data recipe)
                                    @ '' (serves '' @ str_int (servings (data recipe)) @ '').'')),
               (''message_type'', JStr ''structured''),
               (''structured_data'', JDict (Recipe_model_dump (data recipe)))]"
    by (simp add: response_message_def Recipe_model_dump_def)
next
  assume i: "detect_intent prompt = ''weather''"
    and r: "weather_agent w
                (''Provide a weather forecast based on this request: '' @ prompt
                   @ ''. Note: This is a demo - provide realistic but fictional weather data.'')
                history
              = Inr forecast"
  have "dispatch w (detect_intent prompt) prompt history =
      Inr (Some (WeatherForecast_model_dump (data forecast)),
           ''Here's the weather forecast for '' @ location (data forecast) @ ''.'',
           new_messages_json forecast)"
    using r unfolding i by (simp add: dispatch_def)
  from second_chunk_is_reply [OF assms this]
  show "yielded (actions (stream_messages w prompt db)) ! 1 =
              [(''role'', JStr ''model''),
               (''timestamp'', JStr (now w 1)),
               (''content'', JStr (''Here's the weather forecast for ''
                                    @ location (data forecast) @ ''.'')),
               (''message_type'', JStr ''structured''),
               (''structured_data'', JDict (WeatherForecast_model_dump (data forecast)))]"
    by (simp add: response_message_def WeatherForecast_model_dump_def)
next
  assume i: "detect_intent prompt = ''review''"
    and r: "review_agent w (''Provide a product review based on this request: '' @ prompt) history
              = Inr review"
  have "dispatch w (detect_intent prompt) prompt history =
      Inr (Some (ProductReview_model_dump (data review)),
           ''Here's a structured review for '' @ product_name (data review)
             @ '' ('' @ str_int (rating (data review)) @ ''/5 stars).'',
           new_messages_json review)"
    using r unfolding i by (simp add: dispatch_def)
  from second_chunk_is_reply [OF assms this]
  show "yielded (actions (stream_messages w prompt db)) ! 1 =
              [(''role'', JStr ''model''),
               (''timestamp'', JStr (now w 1)),
               (''content'', JStr (''Here's a structured review for ''
                                    @ product_name (data review)
                                    @ '' ('' @ str_int (rating (data review)) @ ''/5 stars).'')),
               (''message_type'', JStr ''structured''),
               (''structured_data'', JDict (ProductReview_model_dump (data review)))]"
    by (simp add: response_message_def ProductReview_model_dump_def)
next
  assume i: "detect_intent prompt = ''general''"
    and r: "general_agent w prompt history = Inr reply"
  have "dispatch w (detect_intent prompt) prompt history =
      Inr (None, data reply, new_messages_json reply)"
    using r unfolding i by (simp add: dispatch_def)
  from second_chunk_is_reply [OF assms this]
  show "yielded (actions (stream_messages w prompt db)) ! 1 =
              [(''role'', JStr ''model''),
               (''timestamp'', JStr (now w 1)),
               (''content'', JStr (data reply)),
               (''message_type'', JStr ''text''),
               (''structured_data'', JNull)]"
    by (simp add: response_message_def)
qed


theorem reply_content_follows_template_witness:
  "map_of (yielded (actions (stream_messages example_world ''Plan my week with 3 tasks'' [])) ! 1)
      ''content''
     = Some (JStr ''I've created a structured task list for you with 3 tasks.'')
   \<and> map_of (yielded (actions (stream_messages example_world ''Cook me a soup'' [])) ! 1)
      ''content''
     = Some (JStr ''Here's a easy recipe for Tomato soup (serves 4).'')
   \<and> map_of (yielded (actions (stream_messages example_world ''What's the weather in Paris?'' [])) ! 1)
      ''content''
     = Some (JStr ''Here's the weather forecast for Paris.'')
   \<and> map_of (yielded (actions (stream_messages example_world ''Review my blender'' [])) ! 1)
      ''content''
     = Some (JStr ''Here's a structured review for Blender (4/5 stars).'')
   \<and> map_of (yielded (actions (stream_messages example_world ''hello'' [])) ! 1)
      ''content''
     = Some (JStr ''Hello!'')"
proof -
  have read: "get_messages example_world [] = Inr []"
    by (simp add: get_messages_def example_world_def)
  have digits: "str_int 3 = ''3''" "str_int 4 = ''4''"
    by code_simp+
  have i1: "detect_intent ''Plan my week with 3 tasks'' = ''tasks''" by code_simp
  have a1: "task_agent example_world
      (''Create a task list based on this request: '' @ ''Plan my week with 3 tasks'') []
      = Inr example_task_list"
    by (simp add: example_world_def)
  have i2: "detect_intent ''Cook me a soup'' = ''recipe''" by code_simp
  have a2: "recipe_agent example_world
      (''Provide a recipe based on this request: '' @ ''Cook me a soup'') []
      = Inr example_recipe"
    by (simp add: example_world_def)
  have i3: "detect_intent ''What's the weather in Paris?'' = ''weather''" by code_simp
  have a3: "weather_agent example_world
      (''Provide a weather forecast based on this request: '' @ ''What's the weather in Paris?''
         @ ''. Note: This is a demo - provide realistic but fictional weather data.'') []
      = Inr example_forecast"
    by (simp add: example_world_def)
  have i4: "detect_intent ''Review my blender'' = ''review''" by code_simp
  have a4: "review_agent example_world
      (''Provide a product review based on this request: '' @ ''Review my blender'') []
      = Inr example_review"
    by (simp add: example_world_def)
  have i5: "detect_intent ''hello'' = ''general''" by code_simp
  have a5: "general_agent example_world ''hello'' []
      = Inr \<lparr>data = ''Hello!'', new_messages_json = ''hello''\<rparr>"
    by (simp add: example_world_def)
  have c1: "map_of (yielded (actions (stream_messages example_world
        ''Plan my week with 3 tasks'' [])) ! 1) ''content''
     = Some (JStr ''I've created a structured task list for you with 3 tasks.'')"
    using reply_content_follows_template
      [OF read, THEN conjunct1, THEN mp, OF conjI [OF i1 a1]]
    by (simp add: example_task_list_def digits)
  have c2: "map_of (yielded (actions (stream_messages example_world
        ''Cook me a soup'' [])) ! 1) ''content''
     = Some (JStr ''Here's a easy recipe for Tomato soup (serves 4).'')"
    using reply_content_follows_template
      [OF read, THEN conjunct2, THEN conjunct1, THEN mp, OF conjI [OF i2 a2]]
    by (simp add: example_recipe_def digits)
  have c3: "map_of (yielded (actions (stream_messages example_world
        ''What's the weather in Paris?'' [])) ! 1) ''content''
     = Some (JStr ''Here's the weather forecast for Paris.'')"
    using reply_content_follows_template
      [OF read, THEN conjunct2, THEN conjunct2, THEN conjunct1, THEN mp, OF conjI [OF i3 a3]]
    by (simp add: example_forecast_def)
  have c4: "map_of (yielded (actions (stream_messages example_world
        ''Review my blender'' [])) ! 1) ''content''
     = Some (JStr ''Here's a structured review for Blender (4/5 stars).'')"
    using reply_content_follows_template
      [OF read, THEN conjunct2, THEN conjunct2, THEN conjunct2, THEN conjunct1, THEN mp,
       OF conjI [OF i4 a4]]
    by (simp add: example_review_def digits)
  have c5: "map_of (yielded (actions (stream_messages example_world
        ''hello'' [])) ! 1) ''content''
     = Some (JStr ''Hello!'')"
    using reply_content_follows_template
      [OF read, THEN conjunct2, THEN conjunct2, THEN conjunct2, THEN conjunct2, THEN mp,
       OF conjI [OF i5 a5]]
    by simp
  from c1 c2 c3 c4 c5 show ?thesis by (intro conjI)
qed

lemma structured_data_iff_user_message: "structured_data_iff (user_message timestamp prompt)"
  by (simp add: structured_data_iff_def user_message_def)

lemma structured_data_iff_error_message: "structured_data_iff (error_message timestamp msg)"
  by (simp add: structured_data_iff_def error_message_def)

lemma structured_data_iff_response_message:
  assumes "structured_data = None \<or> (\<exists>d. structured_data = Some d \<and> d \<noteq> [])"
  shows "structured_data_iff (response_message timestamp content structured_data)"
  using assms by (auto simp: structured_data_iff_def response_message_def)

lemma content_nonempty_user_message:
  "content_nonempty (user_message timestamp prompt) \<longleftrightarrow> prompt \<noteq> []"
  by (simp add: content_nonempty_def user_message_def)

lemma content_nonempty_error_message: "content_nonempty (error_message timestamp msg)"
  by (simp add: content_nonempty_def error_message_def)

lemma content_nonempty_response_message:
  "content_nonempty (response_message timestamp content structured_data) \<longleftrightarrow> content \<noteq> []"
  by (simp add: content_nonempty_def response_message_def)

lemma dispatch_structured_data:
  assumes "dispatch w intent prompt history = Inr (structured_data, content, new_messages)"
  shows "structured_data = None \<or> (\<exists>d. structured_data = Some d \<and> d \<noteq> [])"
  using assms
  by (auto simp: dispatch_def TaskList_model_dump_def Recipe_model_dump_def
      WeatherForecast_model_dump_def ProductReview_model_dump_def
      split: if_splits sum.splits)

lemma dispatch_content:
  assumes "dispatch w intent prompt history = Inr (structured_data, content, new_messages)"
    and "\<forall>history reply. general_agent w prompt history = Inr reply \<longrightarrow> data reply \<noteq> []"
  shows "content \<noteq> []"
  using assms
  by (auto simp: dispatch_def split: if_splits sum.splits)

text \<open>
  C9, as amended. Every turn a request emits has \<open>structured_data\<close> present exactly
  when its \<open>message_type\<close> is \<open>structured\<close>. Its content is non-empty when the prompt
  is non-empty: the echo repeats the prompt, the structured replies and the error
  reply are never empty, and a general reply repeats the agent's text, which is not
  empty for a run that succeeds (the agent library raises on an empty reply of the
  model, and the request then answers with the error turn).
\<close>

theorem emitted_turns_invariant:
  "list_all structured_data_iff (yielded (actions (stream_messages w prompt db)))
   \<and> (prompt \<noteq> []
        \<and> (\<forall>history reply. general_agent w prompt history = Inr reply \<longrightarrow> data reply \<noteq> [])
      \<longrightarrow> list_all content_nonempty (yielded (actions (stream_messages w prompt db))))"
proof (cases rule: stream_messages_cases [where w = w and db = db and prompt = prompt])
  case (read_failed e)
  then show ?thesis
    by (simp add: stream_messages_read_failed structured_data_iff_user_message
        content_nonempty_user_message)
next
  case (agent_failed history msg)
  then show ?thesis
    by (simp add: stream_messages_agent_failed structured_data_iff_user_message
        structured_data_iff_error_message content_nonempty_user_message
        content_nonempty_error_message)
next
  case (write_failed history structured_data content new_messages msg)
  note sd = dispatch_structured_data [OF write_failed(2)]
  have "(\<forall>history reply. general_agent w prompt history = Inr reply \<longrightarrow> data reply \<noteq> [])
      \<longrightarrow> content \<noteq> []"
    using dispatch_content [OF write_failed(2)] by blast
  then show ?thesis
    by (simp add: stream_messages_write_failed [OF write_failed]
        structured_data_iff_user_message structured_data_iff_error_message
        structured_data_iff_response_message [OF sd] content_nonempty_user_message
        content_nonempty_error_message content_nonempty_response_message)
next
  case (succeeded history structured_data content new_messages db')
  note sd = dispatch_structured_data [OF succeeded(2)]
  have "(\<forall>history reply. general_agent w prompt history = Inr reply \<longrightarrow> data reply \<noteq> [])
      \<longrightarrow> content \<noteq> []"
    using dispatch_content [OF succeeded(2)] by blast
  then show ?thesis
    by (simp add: stream_messages_succeeded [OF succeeded]
        structured_data_iff_user_message
        structured_data_iff_response_message [OF sd] content_nonempty_user_message
        content_nonempty_response_message)
qed

theorem emitted_turns_invariant_witness:
  "list_all structured_data_iff (yielded (actions (stream_messages example_world ''hello'' [])))
   \<and> list_all content_nonempty (yielded (actions (stream_messages example_world ''hello'' [])))"
proof -
  have h: "''hello'' \<noteq> []
      \<and> (\<forall>history reply. general_agent example_world ''hello'' history = Inr reply
            \<longrightarrow> data reply \<noteq> [])"
    by (auto simp: example_world_def)
  note t = emitted_turns_invariant [of example_world "''hello''" "[]"]
  from t have "list_all structured_data_iff
      (yielded (actions (stream_messages example_world ''hello'' [])))"
    by (rule conjunct1)
  moreover from t [THEN conjunct2] h have "list_all content_nonempty
      (yielded (actions (stream_messages example_world ''hello'' [])))"
    by (rule mp)
  ultimately show ?thesis by (rule conjI)
qed

text \<open>
  The claim as first stated fails: for the empty prompt the user's echo, which
  repeats the prompt, has empty content.
\<close>

theorem empty_prompt_echo_counterexample:
  "yielded (actions (stream_messages example_world [] [])) ! 0 =
     [(''role'', JStr ''user''),
      (''timestamp'', JStr ''2025-01-01T12:00:00+00:00''),
      (''content'', JStr []),
      (''message_type'', JStr ''text''),
      (''structured_data'', JNull)]
   \<and> \<not> content_nonempty (yielded (actions (stream_messages example_world [] [])) ! 0)"
proof -
  have read: "get_messages example_world [] = Inr []"
    by (simp add: get_messages_def example_world_def)
  have intent: "detect_intent [] = ''general''"
    by code_simp
  have run: "dispatch example_world (detect_intent []) [] [] = Inr (None, ''Hello!'', [])"
    unfolding intent by (simp add: dispatch_def example_world_def)
  have append: "add_messages example_world [] [] = Inr [(1, [])]"
    by (simp add: add_messages_def next_rowid_def example_world_def)
  have clock: "now example_world 0 = ''2025-01-01T12:00:00+00:00''"
    by (simp add: example_world_def)
  have "yielded (actions (stream_messages example_world [] [])) ! 0
      = user_message (now example_world 0) []"
    by (simp add: stream_messages_succeeded [OF read run append])
  then show ?thesis
    by (simp add: user_message_def clock content_nonempty_def)
qed

section \<open>Store failures\<close>

lemma extend_rows_corrupt:
  "row \<in> set rows \<Longrightarrow> validate row = Inl msg
   \<Longrightarrow> \<exists>msg'. extend_rows validate rows messages = Inl (ValidationError msg')"
  by (induction rows arbitrary: messages) (auto split: sum.splits)

lemma get_messages_corrupt:
  assumes "select_error w = None" and "row \<in> set db" and "validate_json w (snd row) = Inl msg"
  shows "\<exists>msg'. get_messages w db = Inl (ValidationError msg')"
proof -
  from assms(2) have "snd row \<in> set (map snd (sort_key fst db))" by simp
  from extend_rows_corrupt [where validate = "validate_json w", OF this assms(3)] assms(1)
  show ?thesis
    by (simp add: get_messages_def)
qed

text \<open>
  C5, as amended. A failed store read - an SQLite error, or a stored record that does
  not decode, wherever it stands in the table - fails \<open>get_messages\<close> as a whole.
  \<open>GET /chat/\<close> then fails with no body. \<open>POST /chat/\<close> has already yielded the user's
  echo: the stream ends there with the exception, no agent runs, no model turn is
  emitted and the table is unchanged.
\<close>

theorem store_read_failure_ends_request:
  "(select_error w = Some msg \<longrightarrow> get_messages w db = Inl (DatabaseError msg))
   \<and> (select_error w = None \<and> row \<in> set db \<and> validate_json w (snd row) = Inl msg
        \<longrightarrow> (\<exists>msg'. get_messages w db = Inl (ValidationError msg')))
   \<and> (get_messages w db = Inl e \<longrightarrow>
        get_chat w db = Inl e
        \<and> actions (stream_messages w prompt db) =
            [Yield (user_message (now w 0) prompt), Call_detect_intent, Call_get_messages]
        \<and> yielded (actions (stream_messages w prompt db)) = [user_message (now w 0) prompt]
        \<and> raised (stream_messages w prompt db) = Some e
        \<and> database_after (stream_messages w prompt db) = db)"
proof (intro conjI impI)
  assume "select_error w = Some msg"
  then show "get_messages w db = Inl (DatabaseError msg)"
    by (simp add: get_messages_def)
next
  assume "select_error w = None \<and> row \<in> set db \<and> validate_json w (snd row) = Inl msg"
  then show "\<exists>msg'. get_messages w db = Inl (ValidationError msg')"
    using get_messages_corrupt by blast
next
  assume e: "get_messages w db = Inl e"
  then show "get_chat w db = Inl e"
    by (simp add: get_chat_def)
  from e show "actions (stream_messages w prompt db) =
            [Yield (user_message (now w 0) prompt), Call_detect_intent, Call_get_messages]"
    and "yielded (actions (stream_messages w prompt db)) = [user_message (now w 0) prompt]"
    and "raised (stream_messages w prompt db) = Some e"
    and "database_after (stream_messages w prompt db) = db"
    by (simp_all add: stream_messages_read_failed)
qed

theorem store_read_failure_ends_request_witness:
  "get_chat example_world [(1, ''hi''), (2, ''not json''), (3, ''hello'')]
     = Inl (ValidationError ''Invalid JSON'')
   \<and> yielded (actions (stream_messages example_world ''hello''
         [(1, ''hi''), (2, ''not json''), (3, ''hello'')]))
     = [user_message ''2025-01-01T12:00:00+00:00'' ''hello'']
   \<and> raised (stream_messages example_world ''hello''
         [(1, ''hi''), (2, ''not json''), (3, ''hello'')])
     = Some (ValidationError ''Invalid JSON'')
   \<and> get_messages (example_world\<lparr>select_error := Some ''disk I/O error''\<rparr>) []
     = Inl (DatabaseError ''disk I/O error'')"
proof -
  let ?db = "[(1, ''hi''), (2, ''not json''), (3::int, ''hello'')]"
  have sel: "select_error example_world = None"
    by (simp add: example_world_def)
  have bad: "select_error example_world = None \<and> (2, ''not json'') \<in> set ?db
      \<and> validate_json example_world (snd (2::int, ''not json'')) = Inl ''Invalid JSON''"
    by (simp add: example_world_def example_validate_json_def)
  note t = store_read_failure_ends_request
  from t [THEN conjunct2, THEN conjunct1, THEN mp, OF bad]
  obtain msg' where "get_messages example_world ?db = Inl (ValidationError msg')" ..
  moreover have "get_messages example_world ?db = Inl (ValidationError ''Invalid JSON'')"
    by (simp add: get_messages_def example_world_def example_validate_json_def)
  ultimately have read: "get_messages example_world ?db = Inl (ValidationError ''Invalid JSON'')"
    by simp
  have clock: "now example_world 0 = ''2025-01-01T12:00:00+00:00''"
    by (simp add: example_world_def)
  have io: "select_error (example_world\<lparr>select_error := Some ''disk I/O error''\<rparr>)
      = Some ''disk I/O error''"
    by simp
  from t [THEN conjunct2, THEN conjunct2, THEN mp, OF read, of "''hello''"]
    t [THEN conjunct1, THEN mp, OF io, of "[]"]
  show ?thesis
    by (simp add: clock)
qed

text \<open>
  The claim as first stated fails for \<open>POST /chat/\<close>: with a stored record that does
  not decode, the user's echo has been streamed when the read fails.
\<close>

theorem corrupt_record_partial_stream_counterexample:
  "yielded (actions (stream_messages example_world ''hello'' [(1, ''not json'')]))
     = [[(''role'', JStr ''user''),
         (''timestamp'', JStr ''2025-01-01T12:00:00+00:00''),
         (''content'', JStr ''hello''),
         (''message_type'', JStr ''text''),
         (''structured_data'', JNull)]]
   \<and> raised (stream_messages example_world ''hello'' [(1, ''not json'')])
     = Some (ValidationError ''Invalid JSON'')"
proof -
  have read: "get_messages example_world [(1, ''not json'')]
      = Inl (ValidationError ''Invalid JSON'')"
    by (simp add: get_messages_def example_world_def example_validate_json_def)
  have clock: "now example_world 0 = ''2025-01-01T12:00:00+00:00''"
    by (simp add: example_world_def)
  show ?thesis
    by (simp add: stream_messages_read_failed [OF read] clock user_message_def)
qed

section \<open>Properties of GET /chat/\<close>

lemma to_chat_message_chat_turn:
  assumes "is_chat_turn m"
  shows "\<exists>d. to_chat_message m = Inr d \<and> map fst d = ChatMessage_keys"
  using assms by (induction m rule: is_chat_turn.induct) (simp_all add: ChatMessage_keys_def)

lemma to_chat_message_other:
  assumes "\<not> is_chat_turn m"
  shows "\<exists>e. to_chat_message m = Inl e"
  using assms by (induction m rule: to_chat_message.induct) simp_all

lemma to_chat_messages_chat_turns:
  assumes "list_all is_chat_turn msgs"
  shows "\<exists>lines. to_chat_messages msgs = Inr lines
    \<and> map to_chat_message msgs = map Inr lines
    \<and> list_all (\<lambda>d. map fst d = ChatMessage_keys) lines"
  using assms
proof (induction msgs)
  case Nil
  then show ?case by simp
next
  case (Cons m msgs)
  then obtain lines where l: "to_chat_messages msgs = Inr lines"
    "map to_chat_message msgs = map Inr lines"
    "list_all (\<lambda>d. map fst d = ChatMessage_keys) lines"
    by auto
  from Cons.prems have "is_chat_turn m" by simp
  from to_chat_message_chat_turn [OF this] obtain d where d: "to_chat_message m = Inr d"
    "map fst d = ChatMessage_keys"
    by auto
  have "to_chat_messages (m # msgs) = Inr (d # lines)"
    by (simp add: d(1) l(1))
  moreover have "map to_chat_message (m # msgs) = map Inr (d # lines)"
    by (simp add: d(1) l(2))
  moreover have "list_all (\<lambda>d. map fst d = ChatMessage_keys) (d # lines)"
    using d(2) l(3) by simp
  ultimately show ?case by auto
qed

lemma to_chat_messages_other:
  assumes "\<not> list_all is_chat_turn msgs"
  shows "\<exists>e. to_chat_messages msgs = Inl e"
  using assms
proof (induction msgs)
  case Nil
  then show ?case by simp
next
  case (Cons m msgs)
  show ?case
  proof (cases "is_chat_turn m")
    case True
    with Cons.prems have "\<not> list_all is_chat_turn msgs" by simp
    from Cons.IH [OF this] show ?thesis
      by (auto split: sum.splits)
  next
    case False
    from to_chat_message_other [OF this] show ?thesis
      by auto
  qed
qed

text \<open>
  Where \<open>GET /chat/\<close> does return the conversation: when every persisted turn is a
  request that starts with a user prompt of string content or a response that starts
  with text, it returns one line per persisted turn, in order, each a dict with
  exactly the keys \<open>role\<close>, \<open>timestamp\<close>, \<open>content\<close>, \<open>message_type\<close>,
  \<open>structured_data\<close>; on an empty store it returns no line. With any other persisted
  turn the request raises.
\<close>

lemma get_chat_one_line_per_chat_turn:
  assumes "get_messages w db = Inr msgs"
  shows "(list_all is_chat_turn msgs \<longrightarrow>
           (\<exists>lines. get_chat w db = Inr lines
              \<and> length lines = length msgs
              \<and> map to_chat_message msgs = map Inr lines
              \<and> list_all (\<lambda>d. map fst d
                   = [''role'', ''timestamp'', ''content'', ''message_type'', ''structured_data''])
                  lines))
       \<and> (\<not> list_all is_chat_turn msgs \<longrightarrow> (\<exists>e. get_chat w db = Inl e))
       \<and> (db = [] \<longrightarrow> get_chat w db = Inr [])"
proof (intro conjI impI)
  assume "list_all is_chat_turn msgs"
  from to_chat_messages_chat_turns [OF this] obtain lines where
    l: "to_chat_messages msgs = Inr lines" "map to_chat_message msgs = map Inr lines"
    "list_all (\<lambda>d. map fst d = ChatMessage_keys) lines"
    by auto
  from l(2) have "length lines = length msgs"
    by (metis length_map)
  with l assms show "\<exists>lines. get_chat w db = Inr lines
      \<and> length lines = length msgs
      \<and> map to_chat_message msgs = map Inr lines
      \<and> list_all (\<lambda>d. map fst d
           = [''role'', ''timestamp'', ''content'', ''message_type'', ''structured_data''])
          lines"
    by (simp add: get_chat_def ChatMessage_keys_def)
next
  assume "\<not> list_all is_chat_turn msgs"
  from to_chat_messages_other [OF this] assms show "\<exists>e. get_chat w db = Inl e"
    by (simp add: get_chat_def)
next
  assume "db = []"
  with assms have "msgs = []"
    by (auto simp: get_messages_def split: option.splits)
  with assms show "get_chat w db = Inr []"
    by (simp add: get_chat_def)
qed

lemma get_chat_one_line_per_chat_turn_example:
  "get_chat example_world [(1, ''hi'')] =
     Inr [[(''role'', JStr ''user''),
           (''timestamp'', JStr ''2025-01-01T09:00:00+00:00''),
           (''content'', JStr ''hi''),
           (''message_type'', JStr ''text''),
           (''structured_data'', JNull)],
          [(''role'', JStr ''model''),
           (''timestamp'', JStr ''2025-01-01T09:00:01+00:00''),
           (''content'', JStr ''Hello!''),
           (''message_type'', JStr ''text''),
           (''structured_data'', JNull)]]
   \<and> get_chat example_world [] = Inr []"
proof -
  let ?msgs = "[ModelRequest [UserPromptPart (StrContent ''hi'') ''2025-01-01T09:00:00+00:00''],
                ModelResponse [TextPart ''Hello!''] ''2025-01-01T09:00:01+00:00'']"
  have read: "get_messages example_world [(1, ''hi'')] = Inr ?msgs"
    by (simp add: get_messages_def example_world_def example_validate_json_def)
  have turns: "list_all is_chat_turn ?msgs"
    by simp
  from get_chat_one_line_per_chat_turn [OF read, THEN conjunct1, THEN mp, OF turns]
  obtain lines where l: "get_chat example_world [(1, ''hi'')] = Inr lines"
    and m: "map to_chat_message ?msgs = map Inr lines"
    by (elim exE conjE)
  from m have "lines = [[(''role'', JStr ''user''),
           (''timestamp'', JStr ''2025-01-01T09:00:00+00:00''),
           (''content'', JStr ''hi''),
           (''message_type'', JStr ''text''),
           (''structured_data'', JNull)],
          [(''role'', JStr ''model''),
           (''timestamp'', JStr ''2025-01-01T09:00:01+00:00''),
           (''content'', JStr ''Hello!''),
           (''message_type'', JStr ''text''),
           (''structured_data'', JNull)]]"
    by (cases lines; cases "tl lines"; auto)
  with l have first: "get_chat example_world [(1, ''hi'')] =
     Inr [[(''role'', JStr ''user''),
           (''timestamp'', JStr ''2025-01-01T09:00:00+00:00''),
           (''content'', JStr ''hi''),
           (''message_type'', JStr ''text''),
           (''structured_data'', JNull)],
          [(''role'', JStr ''model''),
           (''timestamp'', JStr ''2025-01-01T09:00:01+00:00''),
           (''content'', JStr ''Hello!''),
           (''message_type'', JStr ''text''),
           (''structured_data'', JNull)]]"
    by simp
  have empty: "get_messages example_world [] = Inr []"
    by (simp add: get_messages_def example_world_def)
  from get_chat_one_line_per_chat_turn
    [OF empty, THEN conjunct2, THEN conjunct2, THEN mp, OF refl]
  have "get_chat example_world [] = Inr []" .
  with first show ?thesis by (rule conjI)
qed

text \<open>
  C7. \<open>GET /chat/\<close> is to return one line for every persisted turn. It does not
  after a request with a structured reply: the request streams the reply as a
  \<open>structured\<close> turn and stores the exchange of the run, whose response calls the
  result tool; on that store \<open>to_chat_message\<close> raises, so \<open>GET /chat/\<close> fails instead
  of returning the conversation.
\<close>

theorem get_chat_fails_after_structured_post:
  "map_of (yielded (actions (stream_messages library_world ''Plan my week with 3 tasks'' [])) ! 1)
      ''message_type''
     = Some (JStr ''structured'')
   \<and> raised (stream_messages library_world ''Plan my week with 3 tasks'' []) = None
   \<and> database_after (stream_messages library_world ''Plan my week with 3 tasks'' [])
     = [(1, ''SCreate a task list based on this request: Plan my week with 3 tasks'')]
   \<and> get_messages library_world
        (database_after (stream_messages library_world ''Plan my week with 3 tasks'' []))
     = Inr [ModelRequest [UserPromptPart
               (StrContent ''Create a task list based on this request: Plan my week with 3 tasks'')
               ''2025-01-01T10:00:00+00:00''],
            ModelResponse [ToolCallPart ''final_result''] ''2025-01-01T10:00:01+00:00'',
            ModelRequest [ToolReturnPart ''final_result'']]
   \<and> get_chat library_world
        (database_after (stream_messages library_world ''Plan my week with 3 tasks'' []))
     = Inl (UnexpectedModelBehavior
              (ModelResponse [ToolCallPart ''final_result''] ''2025-01-01T10:00:01+00:00''))"
proof -
  let ?exchange = "''SCreate a task list based on this request: Plan my week with 3 tasks''"
  have read: "get_messages library_world [] = Inr []"
    by (simp add: get_messages_def library_world_def example_world_def)
  have intent: "detect_intent ''Plan my week with 3 tasks'' = ''tasks''"
    by code_simp
  have run: "dispatch library_world (detect_intent ''Plan my week with 3 tasks'')
      ''Plan my week with 3 tasks'' []
      = Inr (Some (TaskList_model_dump (data example_task_list)),
             ''I've created a structured task list for you with ''
               @ str_int (total_tasks (data example_task_list)) @ '' tasks.'',
             ?exchange)"
    unfolding intent by (simp add: dispatch_def library_world_def)
  have append: "add_messages library_world [] ?exchange = Inr [(1, ?exchange)]"
    by (simp add: add_messages_def next_rowid_def library_world_def example_world_def)
  note post = stream_messages_succeeded [OF read run append]
  have kind: "map_of (yielded (actions (stream_messages library_world
        ''Plan my week with 3 tasks'' [])) ! 1) ''message_type''
     = Some (JStr ''structured'')"
    by (simp add: post response_message_def TaskList_model_dump_def)
  have ended: "raised (stream_messages library_world ''Plan my week with 3 tasks'' []) = None"
    and stored: "database_after (stream_messages library_world ''Plan my week with 3 tasks'' [])
     = [(1, ?exchange)]"
    by (simp_all add: post)
  have turns: "get_messages library_world [(1, ?exchange)]
     = Inr [ModelRequest [UserPromptPart
               (StrContent ''Create a task list based on this request: Plan my week with 3 tasks'')
               ''2025-01-01T10:00:00+00:00''],
            ModelResponse [ToolCallPart ''final_result''] ''2025-01-01T10:00:01+00:00'',
            ModelRequest [ToolReturnPart ''final_result'']]"
    by (simp add: get_messages_def library_world_def example_world_def)
  have get: "get_chat library_world [(1, ?exchange)]
     = Inl (UnexpectedModelBehavior
              (ModelResponse [ToolCallPart ''final_result''] ''2025-01-01T10:00:01+00:00''))"
    by (simp add: get_chat_def turns)
  from kind ended stored turns get show ?thesis
    by (simp only: stored simp_thms)
qed

end
